theory Spec2Isabelle
  imports Main "HOL-Library.Sublist"
begin

section \<open>The EVC playground program: data\<close>

text \<open>
  The program is one Go file, \<^verbatim>\<open>main.go\<close>, with three functions: \<^verbatim>\<open>main\<close>,
  \<^verbatim>\<open>doThings\<close> and \<^verbatim>\<open>createClient\<close>. Everything else is the govmomi library and the Go
  standard library. Library calls that talk to the vSphere endpoint are parameters of the
  model (the record \<open>server\<close> below): the model fixes which call is made, with which
  arguments and in which order, and what the program does with each answer.

  A Go \<^verbatim>\<open>error\<close> is used by the program only through \<^verbatim>\<open>%s\<close> and \<^verbatim>\<open>%w\<close>, that is
  through the text \<^verbatim>\<open>Error()\<close> returns, so an error is modelled as that text. A Go string
  is a sequence of bytes, as \<open>string\<close> is here.
\<close>

type_synonym error = string

text \<open>
  \<^verbatim>\<open>context.Context\<close>. \<open>Background\<close> is \<^verbatim>\<open>context.Background()\<close>, which is never
  cancelled and has no deadline; \<open>WithCancel\<close> stands for a context derived from a parent
  whose \<^verbatim>\<open>Done\<close> channel can close (\<^verbatim>\<open>WithCancel\<close>, \<^verbatim>\<open>WithDeadline\<close>, \<^verbatim>\<open>WithTimeout\<close>).
\<close>

datatype "context" = Background | WithCancel "context"

fun can_cancel :: "context \<Rightarrow> bool" where
  "can_cancel Background = False"
| "can_cancel (WithCancel parent) = True"

text \<open>\<^verbatim>\<open>url.Userinfo\<close> as \<^verbatim>\<open>url.UserPassword\<close> builds it, and \<^verbatim>\<open>url.URL\<close> with the fields set.\<close>

record Userinfo =
  username :: string
  password :: string
  passwordSet :: bool

definition UserPassword :: "string \<Rightarrow> string \<Rightarrow> Userinfo" where
  "UserPassword usr pwd = \<lparr>username = usr, password = pwd, passwordSet = True\<rparr>"

record URL =
  Scheme :: string
  Host :: string
  Path :: string
  User :: "Userinfo option"

text \<open>
  \<^verbatim>\<open>soap.NewClient(u, insecure)\<close>: the SOAP client keeps the insecure flag and a copy of
  the URL from which the user information is removed.
\<close>

record soap_Client =
  u :: URL
  insecure :: bool

definition soap_NewClient :: "URL \<Rightarrow> bool \<Rightarrow> soap_Client" where
  "soap_NewClient url k = \<lparr>u = url\<lparr>User := None\<rparr>, insecure = k\<rparr>"

text \<open>
  \<^verbatim>\<open>*vim25.Client\<close> is an opaque session handle handed out by \<^verbatim>\<open>vim25.NewClient\<close>;
  \<^verbatim>\<open>session.NewManager\<close> wraps it; \<^verbatim>\<open>govmomi.Client\<close> is the pair the program builds.
  The embedded \<^verbatim>\<open>c.RoundTripper\<close> of a \<^verbatim>\<open>govmomi.Client\<close> is the one of its \<^verbatim>\<open>vim25.Client\<close>,
  so a call through \<^verbatim>\<open>c.RoundTripper\<close> is modelled as a call through \<open>Client c\<close>.
\<close>

datatype vim25_Client = vim25_Client nat

datatype Manager = NewManager vim25_Client

record govmomi_Client =
  Client :: vim25_Client
  SessionManager :: Manager

text \<open>\<^verbatim>\<open>types.ManagedObjectReference\<close> (type and value) and the inventory objects holding one.\<close>

datatype ManagedObjectReference = ManagedObjectReference string string

datatype Datacenter = Datacenter ManagedObjectReference

datatype VirtualMachine = VirtualMachine ManagedObjectReference

datatype ClusterComputeResource = ClusterComputeResource ManagedObjectReference

fun VirtualMachine_Reference :: "VirtualMachine \<Rightarrow> ManagedObjectReference" where
  "VirtualMachine_Reference (VirtualMachine r) = r"

fun ClusterComputeResource_Reference :: "ClusterComputeResource \<Rightarrow> ManagedObjectReference" where
  "ClusterComputeResource_Reference (ClusterComputeResource r) = r"

text \<open>
  \<^verbatim>\<open>find.Finder\<close>: the client and the datacenter that scopes its lookups (\<open>None\<close> is
  \<^verbatim>\<open>nil\<close>), which \<^verbatim>\<open>SetDatacenter\<close> sets.
\<close>

record Finder =
  finder_client :: vim25_Client
  finder_dc :: "Datacenter option"

definition SetDatacenter :: "Finder \<Rightarrow> Datacenter \<Rightarrow> Finder" where
  "SetDatacenter f d = f\<lparr>finder_dc := Some d\<rparr>"

text \<open>
  The EVC types, with the fields the program reads: \<^verbatim>\<open>types.HostFeatureMask\<close>,
  \<^verbatim>\<open>types.ElementDescription\<close> (embedded in \<^verbatim>\<open>types.EVCMode\<close>), \<^verbatim>\<open>types.EVCMode\<close>,
  \<^verbatim>\<open>types.ClusterEVCManagerEVCState\<close> and \<^verbatim>\<open>mo.ClusterEVCManager\<close>.
\<close>

record HostFeatureMask =
  Key :: string
  FeatureName :: string
  Value :: string

record ElementDescription =
  Key :: string

record EVCMode =
  ElementDescription :: ElementDescription
  FeatureMask :: "HostFeatureMask list"

record ClusterEVCManagerEVCState =
  SupportedEVCMode :: "EVCMode list"

record ClusterEVCManager =
  EvcState :: ClusterEVCManagerEVCState

text \<open>
  The request and response bodies. \<^verbatim>\<open>EvcManagerResponse.Returnval\<close> is a pointer (the
  program dereferences it), so it can be \<^verbatim>\<open>nil\<close>; \<^verbatim>\<open>CompleteMasks\<close> is a \<^verbatim>\<open>*bool\<close>.
\<close>

record EvcManager =
  This :: ManagedObjectReference

record EvcManagerResponse =
  Returnval :: "ManagedObjectReference option"

record ApplyEvcModeVM_Task =
  This :: ManagedObjectReference
  Mask :: "HostFeatureMask list"
  CompleteMasks :: "bool option"

record ApplyEvcModeVM_TaskResponse =
  Returnval :: ManagedObjectReference

datatype Task = NewTask vim25_Client ManagedObjectReference

section \<open>The endpoint and the process environment\<close>

text \<open>
  What the library calls answer. Each is a function of the call's arguments: the endpoint
  is taken to answer the same call in the same way throughout a run (the program repeats
  only the default-datacenter lookup, once for each finder it makes). An answer \<open>Inl e\<close>
  (or \<open>Some e\<close> where nothing else is returned) is the call's non-nil \<^verbatim>\<open>error\<close>.
\<close>

record server =
  vim25_NewClient :: "context \<Rightarrow> soap_Client \<Rightarrow> error + vim25_Client"
  Login :: "context \<Rightarrow> Manager \<Rightarrow> Userinfo option \<Rightarrow> error option"
  Finder_DefaultDatacenter :: "context \<Rightarrow> vim25_Client \<Rightarrow> error + Datacenter"
  Finder_Datacenter :: "context \<Rightarrow> Finder \<Rightarrow> string \<Rightarrow> error + Datacenter"
  Finder_VirtualMachine :: "context \<Rightarrow> Finder \<Rightarrow> string \<Rightarrow> error + VirtualMachine"
  Finder_ClusterComputeResourceOrDefault ::
    "context \<Rightarrow> Finder \<Rightarrow> string \<Rightarrow> error + ClusterComputeResource"
  methods_EvcManager :: "context \<Rightarrow> vim25_Client \<Rightarrow> EvcManager \<Rightarrow> error + EvcManagerResponse"
  RetrieveOne :: "context \<Rightarrow> vim25_Client \<Rightarrow> ManagedObjectReference \<Rightarrow> error + ClusterEVCManager"
  methods_ApplyEvcModeVM_Task ::
    "context \<Rightarrow> vim25_Client \<Rightarrow> ApplyEvcModeVM_Task \<Rightarrow> error + ApplyEvcModeVM_TaskResponse"
  Task_Wait :: "context \<Rightarrow> Task \<Rightarrow> error option"

text \<open>
  The library calls of a run that talk to the endpoint, with their arguments, in the order
  they are made: one entry for each library call, however many requests the library sends
  for it.
\<close>

datatype call =
    Call_vim25_NewClient "context" soap_Client
  | Call_Login "context" Manager "Userinfo option"
  | Call_Finder_DefaultDatacenter "context" vim25_Client
  | Call_Finder_Datacenter "context" Finder string
  | Call_Finder_VirtualMachine "context" Finder string
  | Call_Finder_ClusterComputeResourceOrDefault "context" Finder string
  | Call_methods_EvcManager "context" vim25_Client EvcManager
  | Call_RetrieveOne "context" vim25_Client ManagedObjectReference
  | Call_methods_ApplyEvcModeVM_Task "context" vim25_Client ApplyEvcModeVM_Task
  | Call_Task_Wait "context" Task

fun call_context :: "call \<Rightarrow> context" where
  "call_context (Call_vim25_NewClient ctx sc) = ctx"
| "call_context (Call_Login ctx m usr) = ctx"
| "call_context (Call_Finder_DefaultDatacenter ctx cl) = ctx"
| "call_context (Call_Finder_Datacenter ctx f n) = ctx"
| "call_context (Call_Finder_VirtualMachine ctx f n) = ctx"
| "call_context (Call_Finder_ClusterComputeResourceOrDefault ctx f n) = ctx"
| "call_context (Call_methods_EvcManager ctx cl req) = ctx"
| "call_context (Call_RetrieveOne ctx cl r) = ctx"
| "call_context (Call_methods_ApplyEvcModeVM_Task ctx cl req) = ctx"
| "call_context (Call_Task_Wait ctx t) = ctx"

text \<open>
  \<^verbatim>\<open>find.NewFinder(client)\<close> is govmomi's. Called with the client alone, as the program
  calls it twice, it does not only build the finder: it looks the default datacenter up
  itself, with \<^verbatim>\<open>context.Background()\<close> whatever context the caller holds, and keeps the
  answer as the finder's datacenter. The error of that lookup is dropped, and the finder
  then has no datacenter. The result is the call made and the finder.
\<close>

definition NewFinder :: "server \<Rightarrow> vim25_Client \<Rightarrow> call list \<times> Finder" where
  "NewFinder srv cl =
     ([Call_Finder_DefaultDatacenter Background cl],
      \<lparr>finder_client = cl,
       finder_dc = (case Finder_DefaultDatacenter srv Background cl of
                      Inl err \<Rightarrow> None
                    | Inr d \<Rightarrow> Some d)\<rparr>)"

text \<open>
  The process environment: \<^verbatim>\<open>os.Getenv\<close> gives the empty string for a variable that is
  not set. The command line after \<^verbatim>\<open>flag.Parse\<close>: a flag that was not given has its
  default, which is \<^verbatim>\<open>""\<close> for \<^verbatim>\<open>-dc\<close>, \<^verbatim>\<open>-cluster\<close> and \<^verbatim>\<open>-vm\<close>.
\<close>

type_synonym environ = "string \<Rightarrow> string option"

definition Getenv :: "environ \<Rightarrow> string \<Rightarrow> string" where
  "Getenv env k = (case env k of None \<Rightarrow> [] | Some v \<Rightarrow> v)"

record flags =
  flag_dc :: "string option"
  flag_cluster :: "string option"
  flag_vm :: "string option"
  flag_evcmode :: "string option"

definition flag_String :: "string option \<Rightarrow> string \<Rightarrow> string" where
  "flag_String given dflt = (case given of None \<Rightarrow> dflt | Some v \<Rightarrow> v)"

section \<open>The program\<close>

subsection \<open>createClient\<close>

definition createClient_url :: "environ \<Rightarrow> URL" where
  "createClient_url env =
     \<lparr>Scheme = ''https'', Host = Getenv env ''GOVC_URL'', Path = ''/sdk'',
      User = Some (UserPassword (Getenv env ''GOVC_USERNAME'') (Getenv env ''GOVC_PASSWORD''))\<rparr>"

definition createClient ::
  "environ \<Rightarrow> server \<Rightarrow> context \<Rightarrow> call list \<times> (error + govmomi_Client)" where
  "createClient env srv ctx =
     (let url = createClient_url env;
          soapClient = soap_NewClient url True
      in case vim25_NewClient srv ctx soapClient of
           Inl err \<Rightarrow>
             ([Call_vim25_NewClient ctx soapClient],
              Inl (''could not create new vim25 govmomi client, did you set GOVC_USERNAME, GOVC_PASSWORD, GOVC_URL?: '' @ err))
         | Inr vimClient \<Rightarrow>
             (let m = NewManager vimClient
              in case Login srv ctx m (User url) of
                   Some err \<Rightarrow>
                     ([Call_vim25_NewClient ctx soapClient, Call_Login ctx m (User url)],
                      Inl (''could not login via vim25 session manager, did you set GOVC_USERNAME, GOVC_PASSWORD, GOVC_URL?: '' @ err))
                 | None \<Rightarrow>
                     ([Call_vim25_NewClient ctx soapClient, Call_Login ctx m (User url)],
                      Inr \<lparr>Client = vimClient, SessionManager = m\<rparr>)))"

subsection \<open>doThings: the scan of the supported modes\<close>

text \<open>
  Lines 86 to 92: \<^verbatim>\<open>masks\<close> starts as the nil slice; the loop assigns the feature masks of
  the first mode whose key equals \<^verbatim>\<open>evcMode\<close> and breaks.
\<close>

fun scanSupportedEVCMode ::
  "EVCMode list \<Rightarrow> string \<Rightarrow> HostFeatureMask list \<Rightarrow> HostFeatureMask list" where
  "scanSupportedEVCMode [] evcMode masks = masks"
| "scanSupportedEVCMode (e # es) evcMode masks =
     (if ElementDescription.Key (ElementDescription e) = evcMode
      then FeatureMask e
      else scanSupportedEVCMode es evcMode masks)"

text \<open>Lines 86 to 95: the scan, then the test \<^verbatim>\<open>len(masks) == 0\<close> and its error.\<close>

definition resolveMasks :: "EVCMode list \<Rightarrow> string \<Rightarrow> error + HostFeatureMask list" where
  "resolveMasks modes evcMode =
     (let masks = scanSupportedEVCMode modes evcMode []
      in if length masks = 0
         then Inl (''error finding EVC feature masks for '' @ evcMode)
         else Inr masks)"

text \<open>Lines 96 to 98: one printed line for each mask (\<^verbatim>\<open>Println\<close> ends it with a newline).\<close>

definition mask_line :: "HostFeatureMask \<Rightarrow> string" where
  "mask_line m =
     ''mask << VimSdk::Vim::Host::FeatureMask.new({:key => '' @ [CHR 0x22] @ HostFeatureMask.Key m
       @ [CHR 0x22] @ '', :feature_name => '' @ [CHR 0x22] @ FeatureName m
       @ [CHR 0x22] @ '', :value => '' @ [CHR 0x22] @ Value m @ [CHR 0x22] @ ''})'' @ [CHR 0x0A]"

definition print_masks :: "HostFeatureMask list \<Rightarrow> string" where
  "print_masks masks = concat (map mask_line masks)"

subsection \<open>doThings\<close>

text \<open>
  How a call of \<^verbatim>\<open>doThings\<close> ends: it returns its \<^verbatim>\<open>error\<close> (\<open>None\<close> is \<^verbatim>\<open>nil\<close>), or
  it panics, which dereferencing a nil \<^verbatim>\<open>evcMgrRes.Returnval\<close> at line 80 does.
\<close>

datatype outcome = Returned "error option" | Panic

text \<open>
  The result is the calls made, the text written to standard output, and the outcome.
  Each \<^verbatim>\<open>if err != nil { return err }\<close> is the \<open>Inl\<close> branch of the call before it.
  The cluster lookup at line 65 runs on a finder of its own, made by a second
  \<^verbatim>\<open>find.NewFinder(c.Client)\<close>, not on \<^verbatim>\<open>finder\<close>.
\<close>

definition doThings ::
  "environ \<Rightarrow> server \<Rightarrow> context \<Rightarrow> string \<Rightarrow> string \<Rightarrow> string \<Rightarrow> string
     \<Rightarrow> call list \<times> string \<times> outcome" where
  "doThings env srv ctx dc cluster evcMode vmName =
  (case createClient env srv ctx of
     (cs0, Inl err) \<Rightarrow> (cs0, [], Returned (Some err))
   | (cs0, Inr c) \<Rightarrow>
  (case NewFinder srv (Client c) of (csf, finder) \<Rightarrow>
  (let cs1 = cs0 @ csf @ [Call_Finder_Datacenter ctx finder dc]
   in case Finder_Datacenter srv ctx finder dc of
     Inl err \<Rightarrow> (cs1, [], Returned (Some err))
   | Inr dcObj \<Rightarrow>
  (let finder = SetDatacenter finder dcObj;
       cs2 = cs1 @ [Call_Finder_VirtualMachine ctx finder vmName]
   in case Finder_VirtualMachine srv ctx finder vmName of
     Inl err \<Rightarrow> (cs2, [], Returned (Some err))
   | Inr vm \<Rightarrow>
  (case NewFinder srv (Client c) of (csg, clusterFinder) \<Rightarrow>
  (let cs3 = cs2 @ csg @ [Call_Finder_ClusterComputeResourceOrDefault ctx clusterFinder cluster]
   in case Finder_ClusterComputeResourceOrDefault srv ctx clusterFinder cluster of
     Inl err \<Rightarrow> (cs3, [], Returned (Some err))
   | Inr clusterObj \<Rightarrow>
  (let evcReq = \<lparr>EvcManager.This = ClusterComputeResource_Reference clusterObj\<rparr>;
       cs4 = cs3 @ [Call_methods_EvcManager ctx (Client c) evcReq]
   in case methods_EvcManager srv ctx (Client c) evcReq of
     Inl err \<Rightarrow> (cs4, [], Returned (Some err))
   | Inr evcMgrRes \<Rightarrow>
  (case EvcManagerResponse.Returnval evcMgrRes of
     None \<Rightarrow> (cs4, [], Panic)
   | Some evcMgrRef \<Rightarrow>
  (let cs5 = cs4 @ [Call_RetrieveOne ctx (Client c) evcMgrRef]
   in case RetrieveOne srv ctx (Client c) evcMgrRef of
     Inl err \<Rightarrow> (cs5, [], Returned (Some err))
   | Inr evcMgr \<Rightarrow>
  (case resolveMasks (SupportedEVCMode (EvcState evcMgr)) evcMode of
     Inl err \<Rightarrow> (cs5, [], Returned (Some err))
   | Inr masks \<Rightarrow>
  (let out1 = print_masks masks;
       isComplete = True;
       req = \<lparr>ApplyEvcModeVM_Task.This = VirtualMachine_Reference vm,
              Mask = masks,
              CompleteMasks = Some isComplete\<rparr>;
       out2 = out1 @ ''Applying EVC mode '' @ evcMode @ '' to '' @ vmName;
       cs6 = cs5 @ [Call_methods_ApplyEvcModeVM_Task ctx (Client c) req]
   in case methods_ApplyEvcModeVM_Task srv ctx (Client c) req of
     Inl err \<Rightarrow> (cs6, out2, Returned (Some err))
   | Inr res \<Rightarrow>
  (let t = NewTask (Client c) (ApplyEvcModeVM_TaskResponse.Returnval res)
   in (cs6 @ [Call_Task_Wait ctx t], out2, Returned (Task_Wait srv ctx t))))))))))))))"

subsection \<open>main\<close>

text \<open>
  A run of the process: the calls that reached the endpoint, what the program wrote to
  standard output and to standard error, and how the process ended: \<^verbatim>\<open>os.Exit(1)\<close> is
  \<open>Exit 1\<close>, returning from \<^verbatim>\<open>main\<close> is \<open>Exit 0\<close>, a panic is \<open>Crash\<close> (the report the Go
  runtime prints for it is not part of \<open>stderr\<close> here).
\<close>

datatype status = Exit nat | Crash

record process =
  calls :: "call list"
  stdout :: string
  stderr :: string
  status :: status

definition main :: "environ \<Rightarrow> server \<Rightarrow> flags \<Rightarrow> process" where
  "main env srv fl =
  (let dc = flag_String (flag_dc fl) [];
       cluster = flag_String (flag_cluster fl) [];
       vmName = flag_String (flag_vm fl) [];
       evcMode = flag_String (flag_evcmode fl) ''intel-sandybridge''
   in if dc = [] \<or> cluster = [] \<or> vmName = [] then
        \<lparr>calls = [],
         stdout = ''dc, cluster, and vm are required flags'' @ [CHR 0x0A],
         stderr = [], status = Exit 1\<rparr>
      else if Getenv env ''GOVC_PASSWORD'' = [] \<or> Getenv env ''GOVC_USERNAME'' = []
                \<or> Getenv env ''GOVC_URL'' = [] then
        \<lparr>calls = [],
         stdout = ''GOVC_PASSWORD, GOVC_USERNAME, and GOVC_URL are required env vars'' @ [CHR 0x0A],
         stderr = [], status = Exit 1\<rparr>
      else
        (case doThings env srv Background dc cluster evcMode vmName of
           (cs, out, Panic) \<Rightarrow>
             \<lparr>calls = cs, stdout = out, stderr = [], status = Crash\<rparr>
         | (cs, out, Returned (Some err)) \<Rightarrow>
             \<lparr>calls = cs, stdout = out, stderr = ''error: '' @ err @ [CHR 0x0A], status = Exit 1\<rparr>
         | (cs, out, Returned None) \<Rightarrow>
             \<lparr>calls = cs, stdout = out, stderr = [], status = Exit 0\<rparr>))"

section \<open>A sample inventory\<close>

text \<open>A flag or an environment variable is missing when it is absent or empty.\<close>

definition missing :: "string option \<Rightarrow> bool" where
  "missing v = (v = None \<or> v = Some [])"

text \<open>
  An endpoint with one datacenter \<^verbatim>\<open>dc1\<close>, which is therefore the default datacenter,
  one cluster \<^verbatim>\<open>cluster1\<close> in it (which the cluster lookup also answers for the empty
  name, as the only cluster there is) and one machine \<^verbatim>\<open>vm1\<close>; the cluster supports two
  EVC modes. A finder without a datacenter finds neither machine nor cluster. The answer
  of the wait on the task is a parameter. The theorems below are evaluated on it.
\<close>

definition example_modes :: "EVCMode list" where
  "example_modes =
     [\<lparr>ElementDescription = \<lparr>ElementDescription.Key = ''intel-sandybridge''\<rparr>,
       FeatureMask =
         [\<lparr>HostFeatureMask.Key = ''f1'', FeatureName = ''cpuid.AES'', Value = ''1''\<rparr>,
          \<lparr>HostFeatureMask.Key = ''f2'', FeatureName = ''cpuid.AVX'', Value = ''0''\<rparr>]\<rparr>,
      \<lparr>ElementDescription = \<lparr>ElementDescription.Key = ''intel-westmere''\<rparr>,
       FeatureMask =
         [\<lparr>HostFeatureMask.Key = ''f1'', FeatureName = ''cpuid.AES'', Value = ''1''\<rparr>]\<rparr>]"

definition example_server :: "error option \<Rightarrow> server" where
  "example_server wait_answer =
     \<lparr>vim25_NewClient = (\<lambda>ctx sc. Inr (vim25_Client 0)),
      Login = (\<lambda>ctx m usr. None),
      Finder_DefaultDatacenter = (\<lambda>ctx cl.
        Inr (Datacenter (ManagedObjectReference ''Datacenter'' ''datacenter-2''))),
      Finder_Datacenter = (\<lambda>ctx f n.
        if n = ''dc1'' then Inr (Datacenter (ManagedObjectReference ''Datacenter'' ''datacenter-2''))
        else Inl ''datacenter not found''),
      Finder_VirtualMachine = (\<lambda>ctx f n.
        if finder_dc f = None then Inl ''please specify a datacenter''
        else if n = ''vm1'' then Inr (VirtualMachine (ManagedObjectReference ''VirtualMachine'' ''vm-10''))
        else Inl ''vm not found''),
      Finder_ClusterComputeResourceOrDefault = (\<lambda>ctx f n.
        if finder_dc f = None then Inl ''please specify a datacenter''
        else if n = ''cluster1'' \<or> n = []
        then Inr (ClusterComputeResource (ManagedObjectReference ''ClusterComputeResource'' ''domain-c7''))
        else Inl ''cluster not found''),
      methods_EvcManager = (\<lambda>ctx cl req.
        Inr \<lparr>EvcManagerResponse.Returnval = Some (ManagedObjectReference ''ClusterEVCManager'' ''evc-7'')\<rparr>),
      RetrieveOne = (\<lambda>ctx cl r. Inr \<lparr>EvcState = \<lparr>SupportedEVCMode = example_modes\<rparr>\<rparr>),
      methods_ApplyEvcModeVM_Task = (\<lambda>ctx cl req.
        Inr \<lparr>ApplyEvcModeVM_TaskResponse.Returnval = ManagedObjectReference ''Task'' ''task-42''\<rparr>),
      Task_Wait = (\<lambda>ctx t. wait_answer)\<rparr>"

definition example_environ :: environ where
  "example_environ =
     [''GOVC_URL'' \<mapsto> ''vcenter.example.com'', ''GOVC_USERNAME'' \<mapsto> ''administrator'',
      ''GOVC_PASSWORD'' \<mapsto> ''secret'']"

definition example_flags :: flags where
  "example_flags =
     \<lparr>flag_dc = Some ''dc1'', flag_cluster = Some ''cluster1'', flag_vm = Some ''vm1'',
      flag_evcmode = None\<rparr>"

definition example_request :: ApplyEvcModeVM_Task where
  "example_request =
     \<lparr>ApplyEvcModeVM_Task.This = ManagedObjectReference ''VirtualMachine'' ''vm-10'',
      Mask =
        [\<lparr>HostFeatureMask.Key = ''f1'', FeatureName = ''cpuid.AES'', Value = ''1''\<rparr>,
         \<lparr>HostFeatureMask.Key = ''f2'', FeatureName = ''cpuid.AVX'', Value = ''0''\<rparr>],
      CompleteMasks = Some True\<rparr>"

text \<open>The calls of a run on that endpoint up to the cluster lookup, and the calls after it.\<close>

definition example_calls_lookup :: "context \<Rightarrow> Datacenter option \<Rightarrow> string \<Rightarrow> call list" where
  "example_calls_lookup ctx default_dc cluster =
     [Call_vim25_NewClient ctx (soap_NewClient (createClient_url example_environ) True),
      Call_Login ctx (NewManager (vim25_Client 0)) (User (createClient_url example_environ)),
      Call_Finder_DefaultDatacenter Background (vim25_Client 0),
      Call_Finder_Datacenter ctx \<lparr>finder_client = vim25_Client 0, finder_dc = default_dc\<rparr> ''dc1'',
      Call_Finder_VirtualMachine ctx
        \<lparr>finder_client = vim25_Client 0,
         finder_dc = Some (Datacenter (ManagedObjectReference ''Datacenter'' ''datacenter-2''))\<rparr> ''vm1'',
      Call_Finder_DefaultDatacenter Background (vim25_Client 0),
      Call_Finder_ClusterComputeResourceOrDefault ctx
        \<lparr>finder_client = vim25_Client 0, finder_dc = default_dc\<rparr> cluster]"

definition example_calls_apply :: "context \<Rightarrow> call list" where
  "example_calls_apply ctx =
     [Call_methods_EvcManager ctx (vim25_Client 0)
        \<lparr>EvcManager.This = ManagedObjectReference ''ClusterComputeResource'' ''domain-c7''\<rparr>,
      Call_RetrieveOne ctx (vim25_Client 0) (ManagedObjectReference ''ClusterEVCManager'' ''evc-7''),
      Call_methods_ApplyEvcModeVM_Task ctx (vim25_Client 0) example_request,
      Call_Task_Wait ctx (NewTask (vim25_Client 0) (ManagedObjectReference ''Task'' ''task-42''))]"

definition example_calls :: "context \<Rightarrow> string \<Rightarrow> call list" where
  "example_calls ctx cluster =
     example_calls_lookup ctx (Some (Datacenter (ManagedObjectReference ''Datacenter'' ''datacenter-2''))) cluster
       @ example_calls_apply ctx"

definition example_environ_no_password :: environ where
  "example_environ_no_password = example_environ(''GOVC_PASSWORD'' := None)"


subsection \<open>The cluster lookup of the finder\<close>

text \<open>
  Modelled from the spec: \<^verbatim>\<open>ClusterComputeResourceOrDefault\<close>, the finder's cluster lookup,
  is govmomi's and its code is not among the repository's files. Section 4.1 of the spec
  says of it: the cluster lookup accepts an empty name and falls back to a
  single-default-cluster resolution if exactly one cluster exists in scope; ambiguity with
  an empty name and multiple clusters is a failure; and a name that does not resolve fails
  with NotFound. \<open>clusters f\<close> lists the clusters in the scope of the finder \<open>f\<close>, each with
  its name. The spec names the failures, not their texts: the names stand for the texts
  here, and no theorem depends on them.
\<close>

definition ClusterComputeResourceOrDefault ::
  "(Finder \<Rightarrow> (string \<times> ClusterComputeResource) list)
     \<Rightarrow> context \<Rightarrow> Finder \<Rightarrow> string \<Rightarrow> error + ClusterComputeResource" where
  "ClusterComputeResourceOrDefault clusters ctx f name =
     (if name = [] then
        (case clusters f of
           [] \<Rightarrow> Inl ''NotFound''
         | [nc] \<Rightarrow> Inr (snd nc)
         | nc # nc' # rest \<Rightarrow> Inl ''Ambiguous'')
      else
        (case map_of (clusters f) name of
           None \<Rightarrow> Inl ''NotFound''
         | Some c \<Rightarrow> Inr c))"

text \<open>The sample endpoint with a cluster lookup of that kind over a given list of clusters.\<close>

definition example_server_clusters :: "(string \<times> ClusterComputeResource) list \<Rightarrow> server" where
  "example_server_clusters cs =
     (example_server None)
       \<lparr>Finder_ClusterComputeResourceOrDefault := ClusterComputeResourceOrDefault (\<lambda>f. cs)\<rparr>"

definition example_cluster :: "string \<Rightarrow> ClusterComputeResource" where
  "example_cluster v = ClusterComputeResource (ManagedObjectReference ''ClusterComputeResource'' v)"

section \<open>Auxiliary facts\<close>

lemma scan_find:
  "scanSupportedEVCMode T n acc =
     (case find (\<lambda>e. ElementDescription.Key (ElementDescription e) = n) T of
        None \<Rightarrow> acc | Some e \<Rightarrow> FeatureMask e)"
  by (induction T) simp_all

lemma NewFinder_simps:
  "fst (NewFinder srv cl) = [Call_Finder_DefaultDatacenter Background cl]"
  "finder_client (snd (NewFinder srv cl)) = cl"
  by (simp_all add: NewFinder_def)

lemma createClient_calls:
  "fst (createClient env srv ctx) =
     Call_vim25_NewClient ctx (soap_NewClient (createClient_url env) True) #
       (case vim25_NewClient srv ctx (soap_NewClient (createClient_url env) True) of
          Inl err \<Rightarrow> []
        | Inr vimClient \<Rightarrow> [Call_Login ctx (NewManager vimClient) (User (createClient_url env))])"
  by (simp add: createClient_def Let_def split: sum.split option.split)

lemma createClient_calls_only:
  assumes "c \<in> set (fst (createClient env srv ctx))"
  shows "(\<exists>sc. c = Call_vim25_NewClient ctx sc \<and> insecure sc) \<or> (\<exists>m usr. c = Call_Login ctx m usr)"
  using assms
  by (auto simp add: createClient_calls soap_NewClient_def split: sum.splits)

lemma doThings_ctx:
  "c \<in> set (fst (doThings env srv ctx dc cluster evcMode vmName)) \<Longrightarrow>
     call_context c = ctx \<or> (\<exists>cl. c = Call_Finder_DefaultDatacenter Background cl)"
  by (auto simp add: doThings_def Let_def case_prod_beta NewFinder_simps
      split: sum.splits option.splits dest!: createClient_calls_only)

lemma doThings_apply_call:
  "Call_methods_ApplyEvcModeVM_Task ctx' cl req \<in> set (fst (doThings env srv ctx dc cluster evcMode vmName))
    \<Longrightarrow> CompleteMasks req = Some True \<and>
        (\<exists>evcMgrRef evcMgr.
            Call_RetrieveOne ctx cl evcMgrRef \<in> set (fst (doThings env srv ctx dc cluster evcMode vmName)) \<and>
            RetrieveOne srv ctx cl evcMgrRef = Inr evcMgr \<and>
            resolveMasks (SupportedEVCMode (EvcState evcMgr)) evcMode = Inr (Mask req))"
  by (auto simp add: doThings_def Let_def case_prod_beta NewFinder_simps
      split: sum.splits option.splits dest!: createClient_calls_only)

lemma doThings_wait_call:
  "Call_Task_Wait ctx' t \<in> set (fst (doThings env srv ctx dc cluster evcMode vmName))
    \<Longrightarrow> ctx' = ctx \<and> last (fst (doThings env srv ctx dc cluster evcMode vmName)) = Call_Task_Wait ctx t \<and>
        snd (snd (doThings env srv ctx dc cluster evcMode vmName)) = Returned (Task_Wait srv ctx t)"
  by (auto simp add: doThings_def Let_def case_prod_beta NewFinder_simps
      split: sum.splits option.splits dest!: createClient_calls_only)



lemma doThings_vm_then_cluster:
  "Call_Finder_VirtualMachine ctx fv vmName \<in> set (fst (doThings env srv ctx dc cluster evcMode vmName))
    \<Longrightarrow> Finder_VirtualMachine srv ctx fv vmName = Inr vm
    \<Longrightarrow> Call_Finder_ClusterComputeResourceOrDefault ctx (snd (NewFinder srv (finder_client fv))) cluster
          \<in> set (fst (doThings env srv ctx dc cluster evcMode vmName))"
  by (auto simp add: doThings_def Let_def case_prod_beta NewFinder_simps SetDatacenter_def
      split: sum.splits option.splits dest!: createClient_calls_only)

lemma doThings_cluster_lookup_fails:
  "Call_Finder_ClusterComputeResourceOrDefault ctx f cluster \<in> set (fst (doThings env srv ctx dc cluster evcMode vmName))
    \<Longrightarrow> Finder_ClusterComputeResourceOrDefault srv ctx f cluster = Inl err
    \<Longrightarrow> snd (snd (doThings env srv ctx dc cluster evcMode vmName)) = Returned (Some err) \<and>
        last (fst (doThings env srv ctx dc cluster evcMode vmName)) = Call_Finder_ClusterComputeResourceOrDefault ctx f cluster"
  by (auto simp add: doThings_def Let_def case_prod_beta NewFinder_simps SetDatacenter_def
      split: sum.splits option.splits dest!: createClient_calls_only)

lemma doThings_cluster_lookup_succeeds:
  "Call_Finder_ClusterComputeResourceOrDefault ctx f cluster \<in> set (fst (doThings env srv ctx dc cluster evcMode vmName))
    \<Longrightarrow> Finder_ClusterComputeResourceOrDefault srv ctx f cluster = Inr clusterObj
    \<Longrightarrow> Call_methods_EvcManager ctx (finder_client f) \<lparr>EvcManager.This = ClusterComputeResource_Reference clusterObj\<rparr>
              \<in> set (fst (doThings env srv ctx dc cluster evcMode vmName))"
  by (auto simp add: doThings_def Let_def case_prod_beta NewFinder_simps SetDatacenter_def
      split: sum.splits option.splits dest!: createClient_calls_only)

lemma doThings_newclient_call:
  "Call_vim25_NewClient ctx' sc \<in> set (fst (doThings env srv ctx dc cluster evcMode vmName))
    \<Longrightarrow> insecure sc"
  by (auto simp add: doThings_def Let_def case_prod_beta NewFinder_simps
      split: sum.splits option.splits dest!: createClient_calls_only)

lemma main_config:
  "flag_String (flag_dc fl) [] = [] \<or> flag_String (flag_cluster fl) [] = [] \<or> flag_String (flag_vm fl) [] = [] \<or>
   Getenv env ''GOVC_PASSWORD'' = [] \<or> Getenv env ''GOVC_USERNAME'' = [] \<or> Getenv env ''GOVC_URL'' = []
   \<Longrightarrow> calls (main env srv fl) = [] \<and> status (main env srv fl) = Exit 1 \<and> stderr (main env srv fl) = [] \<and>
       (stdout (main env srv fl) = ''dc, cluster, and vm are required flags'' @ [CHR 0x0A] \<or>
        stdout (main env srv fl) = ''GOVC_PASSWORD, GOVC_USERNAME, and GOVC_URL are required env vars'' @ [CHR 0x0A])"
  by (auto simp add: main_def Let_def)

lemma main_run:
  assumes "calls (main env srv fl) \<noteq> []"
  shows "flag_String (flag_dc fl) [] \<noteq> [] \<and> flag_String (flag_cluster fl) [] \<noteq> [] \<and>
         flag_String (flag_vm fl) [] \<noteq> [] \<and>
         calls (main env srv fl) =
           fst (doThings env srv Background (flag_String (flag_dc fl) []) (flag_String (flag_cluster fl) [])
                  (flag_String (flag_evcmode fl) ''intel-sandybridge'') (flag_String (flag_vm fl) []))"
    and "snd (snd (doThings env srv Background (flag_String (flag_dc fl) []) (flag_String (flag_cluster fl) [])
                  (flag_String (flag_evcmode fl) ''intel-sandybridge'') (flag_String (flag_vm fl) []))) = Returned None
         \<Longrightarrow> status (main env srv fl) = Exit 0 \<and> stderr (main env srv fl) = []"
    and "snd (snd (doThings env srv Background (flag_String (flag_dc fl) []) (flag_String (flag_cluster fl) [])
                  (flag_String (flag_evcmode fl) ''intel-sandybridge'') (flag_String (flag_vm fl) []))) = Returned (Some err)
         \<Longrightarrow> status (main env srv fl) = Exit 1 \<and> stderr (main env srv fl) = ''error: '' @ err @ [CHR 0x0A]"
  using assms
  by (auto simp add: main_def Let_def split: if_splits prod.splits outcome.splits option.splits)

lemma main_calls_background:
  assumes "c \<in> set (calls (main env srv fl))"
  shows "call_context c = Background"
proof -
  from assms have "calls (main env srv fl) \<noteq> []" by auto
  from main_run(1) [OF this] assms
  have "c \<in> set (fst (doThings env srv Background (flag_String (flag_dc fl) [])
                        (flag_String (flag_cluster fl) [])
                        (flag_String (flag_evcmode fl) ''intel-sandybridge'')
                        (flag_String (flag_vm fl) [])))"
    by simp
  from doThings_ctx [OF this] show ?thesis by auto
qed

subsection \<open>The sample run\<close>

lemma example_server_simps:
  "Task_Wait (example_server w) ctx t = w"
  by (simp add: example_server_def)

lemma example_resolveMasks:
  "resolveMasks example_modes ''intel-sandybridge'' = Inr (Mask example_request)"
  by (simp add: resolveMasks_def example_modes_def example_request_def)

lemma example_Getenv:
  "Getenv example_environ ''GOVC_URL'' = ''vcenter.example.com''"
  "Getenv example_environ ''GOVC_USERNAME'' = ''administrator''"
  "Getenv example_environ ''GOVC_PASSWORD'' = ''secret''"
  by (simp_all add: Getenv_def example_environ_def)

lemma example_doThings:
  assumes "cluster = ''cluster1'' \<or> cluster = []"
  shows "fst (doThings example_environ (example_server w) ctx ''dc1'' cluster ''intel-sandybridge'' ''vm1'')
           = example_calls ctx cluster"
    and "snd (snd (doThings example_environ (example_server w) ctx ''dc1'' cluster ''intel-sandybridge'' ''vm1''))
           = Returned w"
  using assms
  by (auto simp add: doThings_def createClient_def Let_def example_resolveMasks example_calls_def
      example_calls_lookup_def example_calls_apply_def
      NewFinder_def SetDatacenter_def example_server_def example_request_def)

lemma main_example_flags:
  "main env srv example_flags =
     (if Getenv env ''GOVC_PASSWORD'' = [] \<or> Getenv env ''GOVC_USERNAME'' = [] \<or> Getenv env ''GOVC_URL'' = []
      then \<lparr>calls = [],
            stdout = ''GOVC_PASSWORD, GOVC_USERNAME, and GOVC_URL are required env vars'' @ [CHR 0x0A],
            stderr = [], status = Exit 1\<rparr>
      else
        (case doThings env srv Background ''dc1'' ''cluster1'' ''intel-sandybridge'' ''vm1'' of
           (cs, out, Panic) \<Rightarrow>
             \<lparr>calls = cs, stdout = out, stderr = [], status = Crash\<rparr>
         | (cs, out, Returned (Some err)) \<Rightarrow>
             \<lparr>calls = cs, stdout = out, stderr = ''error: '' @ err @ [CHR 0x0A], status = Exit 1\<rparr>
         | (cs, out, Returned None) \<Rightarrow>
             \<lparr>calls = cs, stdout = out, stderr = [], status = Exit 0\<rparr>))"
  by (simp add: main_def example_flags_def flag_String_def)

lemma example_main:
  "calls (main example_environ (example_server w) example_flags) = example_calls Background ''cluster1''"
  "status (main example_environ (example_server w) example_flags) = (case w of None \<Rightarrow> Exit 0 | Some err \<Rightarrow> Exit 1)"
  "stderr (main example_environ (example_server w) example_flags) = (case w of None \<Rightarrow> [] | Some err \<Rightarrow> ''error: '' @ err @ [CHR 0x0A])"
proof -
  let ?d = "doThings example_environ (example_server w) Background ''dc1'' ''cluster1'' ''intel-sandybridge'' ''vm1''"
  have d: "?d = (example_calls Background ''cluster1'', fst (snd ?d), Returned w)"
    using example_doThings [of "''cluster1''" w Background] by (simp add: prod_eq_iff)
  note m = main_example_flags [of example_environ "example_server w"]
  show "calls (main example_environ (example_server w) example_flags) = example_calls Background ''cluster1''"
    by (subst m, subst d) (simp add: example_Getenv split: option.split)
  show "status (main example_environ (example_server w) example_flags) = (case w of None \<Rightarrow> Exit 0 | Some err \<Rightarrow> Exit 1)"
    by (subst m, subst d) (simp add: example_Getenv split: option.split)
  show "stderr (main example_environ (example_server w) example_flags) = (case w of None \<Rightarrow> [] | Some err \<Rightarrow> ''error: '' @ err @ [CHR 0x0A])"
    by (subst m, subst d) (simp add: example_Getenv split: option.split)
qed


section \<open>Mask resolution\<close>

text \<open>
  C1 (corrected). The claim: resolution returns the feature masks of the first table entry
  whose key equals the requested name, and fails if and only if no key matches. The code
  tests \<^verbatim>\<open>len(masks) == 0\<close> after the scan, so it also fails when the first matching
  entry has no feature masks. What holds: the result is decided by the first entry whose
  key equals the name (later entries with the same key are never read); resolution
  returns that entry's masks when the list is not empty, and fails when there is no such
  entry or its list is empty.
\<close>

theorem resolveMasks_first_match:
  "resolveMasks T n =
     (case find (\<lambda>e. ElementDescription.Key (ElementDescription e) = n) T of
        None \<Rightarrow> Inl (''error finding EVC feature masks for '' @ n)
      | Some e \<Rightarrow>
          if FeatureMask e = [] then Inl (''error finding EVC feature masks for '' @ n)
          else Inr (FeatureMask e)) \<and>
   ((\<exists>err. resolveMasks T n = Inl err) \<longleftrightarrow>
      (\<forall>e \<in> set T. ElementDescription.Key (ElementDescription e) \<noteq> n) \<or>
      (\<exists>e. find (\<lambda>e. ElementDescription.Key (ElementDescription e) = n) T = Some e \<and>
           FeatureMask e = []))"
proof -
  let ?P = "\<lambda>e. ElementDescription.Key (ElementDescription e) = n"
  have eq: "resolveMasks T n =
     (case find ?P T of
        None \<Rightarrow> Inl (''error finding EVC feature masks for '' @ n)
      | Some e \<Rightarrow>
          if FeatureMask e = [] then Inl (''error finding EVC feature masks for '' @ n)
          else Inr (FeatureMask e))"
    by (simp add: resolveMasks_def scan_find split: option.split)
  have "(\<exists>err. resolveMasks T n = Inl err) \<longleftrightarrow>
      (\<forall>e \<in> set T. \<not> ?P e) \<or> (\<exists>e. find ?P T = Some e \<and> FeatureMask e = [])"
  proof (cases "find ?P T")
    case None
    then have "resolveMasks T n = Inl (''error finding EVC feature masks for '' @ n)"
      by (simp add: eq)
    moreover from None have "\<forall>e \<in> set T. \<not> ?P e"
      by (simp add: find_None_iff)
    ultimately show ?thesis by simp
  next
    case (Some e)
    then have "\<exists>e \<in> set T. ?P e"
      by (auto simp add: find_Some_iff)
    with Some show ?thesis
      by (auto simp add: eq)
  qed
  with eq show ?thesis by simp
qed

theorem resolveMasks_first_match_witness:
  "resolveMasks example_modes ''intel-sandybridge'' =
     Inr [\<lparr>HostFeatureMask.Key = ''f1'', FeatureName = ''cpuid.AES'', Value = ''1''\<rparr>,
          \<lparr>HostFeatureMask.Key = ''f2'', FeatureName = ''cpuid.AVX'', Value = ''0''\<rparr>] \<and>
   (\<exists>err. resolveMasks example_modes ''intel-haswell'' = Inl err)"
  using resolveMasks_first_match [of example_modes "''intel-sandybridge''"]
    resolveMasks_first_match [of example_modes "''intel-haswell''"]
  by (simp add: example_modes_def)

theorem resolveMasks_empty_masks_counterexample:
  "find (\<lambda>e. ElementDescription.Key (ElementDescription e) = ''intel-sandybridge'')
     [\<lparr>ElementDescription = \<lparr>ElementDescription.Key = ''intel-sandybridge''\<rparr>, FeatureMask = []\<rparr>]
     = Some \<lparr>ElementDescription = \<lparr>ElementDescription.Key = ''intel-sandybridge''\<rparr>, FeatureMask = []\<rparr> \<and>
   resolveMasks
     [\<lparr>ElementDescription = \<lparr>ElementDescription.Key = ''intel-sandybridge''\<rparr>, FeatureMask = []\<rparr>]
     ''intel-sandybridge''
     = Inl ''error finding EVC feature masks for intel-sandybridge''"
  by (simp add: resolveMasks_def)

text \<open>
  C8 (confirmed). When resolution fails, its error is the text
  \<^verbatim>\<open>error finding EVC feature masks for\<close> followed by the requested name, so the name is
  part of the error, whatever the name is.
\<close>

theorem resolveMasks_error_names_baseline:
  "resolveMasks T n = Inl err \<Longrightarrow>
     err = ''error finding EVC feature masks for '' @ n \<and> sublist n err"
proof -
  assume "resolveMasks T n = Inl err"
  then have e: "err = ''error finding EVC feature masks for '' @ n"
    by (auto simp add: resolveMasks_def Let_def split: if_splits)
  have "sublist n (''error finding EVC feature masks for '' @ n @ [])"
    by (rule sublist_appendI)
  with e show ?thesis by simp
qed

theorem resolveMasks_error_names_baseline_witness:
  "resolveMasks example_modes ''intel-haswell'' = Inl ''error finding EVC feature masks for intel-haswell'' \<and>
   sublist ''intel-haswell'' ''error finding EVC feature masks for intel-haswell''"
proof -
  have h: "resolveMasks example_modes ''intel-haswell'' = Inl ''error finding EVC feature masks for intel-haswell''"
    by (simp add: resolveMasks_def example_modes_def)
  from resolveMasks_error_names_baseline [OF h] h show ?thesis by simp
qed

section \<open>The apply request\<close>

text \<open>
  C2 (confirmed). The request handed to \<^verbatim>\<open>methods.ApplyEvcModeVM_Task\<close> carries, as its
  \<^verbatim>\<open>Mask\<close>, exactly the list that resolution returned for the table read from the
  cluster's EVC manager: the same masks in the same order.
\<close>

theorem doThings_request_masks:
  "Call_methods_ApplyEvcModeVM_Task ctx' cl req
     \<in> set (fst (doThings env srv ctx dc cluster evcMode vmName)) \<Longrightarrow>
   \<exists>evcMgrRef evcMgr.
      Call_RetrieveOne ctx cl evcMgrRef \<in> set (fst (doThings env srv ctx dc cluster evcMode vmName)) \<and>
      RetrieveOne srv ctx cl evcMgrRef = Inr evcMgr \<and>
      resolveMasks (SupportedEVCMode (EvcState evcMgr)) evcMode = Inr (Mask req)"
  using doThings_apply_call [of ctx' cl req env srv ctx dc cluster evcMode vmName]
  by blast

theorem doThings_request_masks_witness:
  "Call_methods_ApplyEvcModeVM_Task Background (vim25_Client 0) example_request
     \<in> set (fst (doThings example_environ (example_server None) Background
                    ''dc1'' ''cluster1'' ''intel-sandybridge'' ''vm1'')) \<and>
   (\<exists>evcMgrRef evcMgr.
      RetrieveOne (example_server None) Background (vim25_Client 0) evcMgrRef = Inr evcMgr \<and>
      resolveMasks (SupportedEVCMode (EvcState evcMgr)) ''intel-sandybridge''
        = Inr [\<lparr>HostFeatureMask.Key = ''f1'', FeatureName = ''cpuid.AES'', Value = ''1''\<rparr>,
               \<lparr>HostFeatureMask.Key = ''f2'', FeatureName = ''cpuid.AVX'', Value = ''0''\<rparr>])"
proof -
  have h: "Call_methods_ApplyEvcModeVM_Task Background (vim25_Client 0) example_request
     \<in> set (fst (doThings example_environ (example_server None) Background
                    ''dc1'' ''cluster1'' ''intel-sandybridge'' ''vm1''))"
    by (simp add: example_doThings example_calls_def example_calls_lookup_def example_calls_apply_def)
  from doThings_request_masks [OF h] h show ?thesis
    by (auto simp add: example_request_def)
qed

text \<open>
  C3 (confirmed). Every request handed to \<^verbatim>\<open>methods.ApplyEvcModeVM_Task\<close> has
  \<^verbatim>\<open>CompleteMasks\<close> pointing to \<^verbatim>\<open>true\<close>.
\<close>

theorem doThings_completeMasks:
  "Call_methods_ApplyEvcModeVM_Task ctx' cl req
     \<in> set (fst (doThings env srv ctx dc cluster evcMode vmName)) \<Longrightarrow>
   CompleteMasks req = Some True"
  using doThings_apply_call [of ctx' cl req env srv ctx dc cluster evcMode vmName]
  by blast

theorem doThings_completeMasks_witness:
  "Call_methods_ApplyEvcModeVM_Task Background (vim25_Client 0) example_request
     \<in> set (fst (doThings example_environ (example_server None) Background
                    ''dc1'' ''cluster1'' ''intel-sandybridge'' ''vm1'')) \<and>
   CompleteMasks example_request = Some True"
proof -
  have h: "Call_methods_ApplyEvcModeVM_Task Background (vim25_Client 0) example_request
     \<in> set (fst (doThings example_environ (example_server None) Background
                    ''dc1'' ''cluster1'' ''intel-sandybridge'' ''vm1''))"
    by (simp add: example_doThings example_calls_def example_calls_lookup_def example_calls_apply_def)
  from doThings_completeMasks [OF h] h show ?thesis by simp
qed

section \<open>Configuration and the outcome of a run\<close>

text \<open>
  C4 (confirmed). When one of the flags \<^verbatim>\<open>-dc\<close>, \<^verbatim>\<open>-cluster\<close>, \<^verbatim>\<open>-vm\<close> or one of the
  variables \<^verbatim>\<open>GOVC_URL\<close>, \<^verbatim>\<open>GOVC_USERNAME\<close>, \<^verbatim>\<open>GOVC_PASSWORD\<close> is absent or empty,
  the run makes no call to the endpoint, prints one of the two configuration messages and
  exits with status 1.
\<close>

theorem main_missing_config:
  "missing (flag_dc fl) \<or> missing (flag_cluster fl) \<or> missing (flag_vm fl) \<or>
   missing (env ''GOVC_URL'') \<or> missing (env ''GOVC_USERNAME'') \<or> missing (env ''GOVC_PASSWORD'') \<Longrightarrow>
   calls (main env srv fl) = [] \<and> status (main env srv fl) = Exit 1 \<and>
   stderr (main env srv fl) = [] \<and>
   (stdout (main env srv fl) = ''dc, cluster, and vm are required flags'' @ [CHR 0x0A] \<or>
    stdout (main env srv fl) =
      ''GOVC_PASSWORD, GOVC_USERNAME, and GOVC_URL are required env vars'' @ [CHR 0x0A])"
proof -
  assume a: "missing (flag_dc fl) \<or> missing (flag_cluster fl) \<or> missing (flag_vm fl) \<or>
    missing (env ''GOVC_URL'') \<or> missing (env ''GOVC_USERNAME'') \<or> missing (env ''GOVC_PASSWORD'')"
  have f: "missing v \<Longrightarrow> flag_String v [] = []" for v
    by (auto simp add: missing_def flag_String_def)
  have g: "missing (env k) \<Longrightarrow> Getenv env k = []" for k
    by (auto simp add: missing_def Getenv_def)
  from a f g have
    "flag_String (flag_dc fl) [] = [] \<or> flag_String (flag_cluster fl) [] = [] \<or>
     flag_String (flag_vm fl) [] = [] \<or> Getenv env ''GOVC_PASSWORD'' = [] \<or>
     Getenv env ''GOVC_USERNAME'' = [] \<or> Getenv env ''GOVC_URL'' = []"
    by blast
  then show ?thesis by (rule main_config)
qed

theorem main_missing_config_witness:
  "missing (example_environ_no_password ''GOVC_PASSWORD'') \<and>
   calls (main example_environ_no_password (example_server None) example_flags) = [] \<and>
   status (main example_environ_no_password (example_server None) example_flags) = Exit 1"
proof -
  have h: "missing (example_environ_no_password ''GOVC_PASSWORD'')"
    by (simp add: missing_def example_environ_no_password_def)
  from main_missing_config [of example_flags example_environ_no_password "example_server None"] h
  show ?thesis by simp
qed

text \<open>
  C5 (confirmed). In a run that reaches the wait on the task: when the wait returns no
  error, the process writes nothing to standard error and ends with status 0; when the
  wait returns an error with text \<open>R\<close>, the process writes \<^verbatim>\<open>error: \<close>, \<open>R\<close> and a
  newline to standard error, so \<open>R\<close> is there unchanged, and ends with status 1. Here
  \<open>R\<close> is the text of the error \<^verbatim>\<open>t.Wait(ctx)\<close> returns; how the library forms that text
  from the fault of the task is not the program's doing.
\<close>

theorem main_wait_outcome:
  assumes "Call_Task_Wait ctx t \<in> set (calls (main env srv fl))"
  shows "(Task_Wait srv ctx t = None \<longrightarrow>
            status (main env srv fl) = Exit 0 \<and> stderr (main env srv fl) = []) \<and>
         (\<forall>R. Task_Wait srv ctx t = Some R \<longrightarrow>
            status (main env srv fl) = Exit 1 \<and>
            stderr (main env srv fl) = ''error: '' @ R @ [CHR 0x0A] \<and>
            sublist R (stderr (main env srv fl)))"
proof -
  let ?d = "doThings env srv Background (flag_String (flag_dc fl) []) (flag_String (flag_cluster fl) [])
              (flag_String (flag_evcmode fl) ''intel-sandybridge'') (flag_String (flag_vm fl) [])"
  from assms have ne: "calls (main env srv fl) \<noteq> []" by auto
  from main_run(1) [OF ne] assms have "Call_Task_Wait ctx t \<in> set (fst ?d)" by simp
  from doThings_wait_call [OF this] have o: "snd (snd ?d) = Returned (Task_Wait srv ctx t)" by simp
  have s: "sublist R (''error: '' @ R @ [CHR 0x0A])" for R :: string
    by (rule sublist_appendI)
  show ?thesis
  proof (cases "Task_Wait srv ctx t")
    case None
    with o main_run(2) [OF ne] show ?thesis by simp
  next
    case (Some R)
    with o main_run(3) [OF ne, of R] s [of R] show ?thesis by simp
  qed
qed

theorem main_wait_outcome_witness:
  "Call_Task_Wait Background (NewTask (vim25_Client 0) (ManagedObjectReference ''Task'' ''task-42''))
     \<in> set (calls (main example_environ (example_server None) example_flags)) \<and>
   status (main example_environ (example_server None) example_flags) = Exit 0 \<and>
   stderr (main example_environ (example_server None) example_flags) = [] \<and>
   Call_Task_Wait Background (NewTask (vim25_Client 0) (ManagedObjectReference ''Task'' ''task-42''))
     \<in> set (calls (main example_environ (example_server (Some ''A general system error occurred'')) example_flags)) \<and>
   status (main example_environ (example_server (Some ''A general system error occurred'')) example_flags) = Exit 1 \<and>
   stderr (main example_environ (example_server (Some ''A general system error occurred'')) example_flags)
     = ''error: '' @ ''A general system error occurred'' @ [CHR 0x0A] \<and>
   sublist ''A general system error occurred''
     (stderr (main example_environ (example_server (Some ''A general system error occurred'')) example_flags))"
proof -
  let ?t = "NewTask (vim25_Client 0) (ManagedObjectReference ''Task'' ''task-42'')"
  let ?R = "''A general system error occurred''"
  have h: "Call_Task_Wait Background ?t \<in> set (calls (main example_environ (example_server w) example_flags))" for w
    by (simp add: example_main example_calls_def example_calls_lookup_def example_calls_apply_def)
  have w: "Task_Wait (example_server w) Background ?t = w" for w
    by (simp add: example_server_simps)
  from main_wait_outcome [OF h [of None]] w [of None]
  have a: "status (main example_environ (example_server None) example_flags) = Exit 0"
    "stderr (main example_environ (example_server None) example_flags) = []"
    by blast+
  from main_wait_outcome [OF h [of "Some ?R"]] w [of "Some ?R"]
  have b: "status (main example_environ (example_server (Some ?R)) example_flags) = Exit 1"
    "stderr (main example_environ (example_server (Some ?R)) example_flags) = ''error: '' @ ?R @ [CHR 0x0A]"
    "sublist ?R (stderr (main example_environ (example_server (Some ?R)) example_flags))"
    by blast+
  from h [of None] a h [of "Some ?R"] b show ?thesis
    by (intro conjI)
qed

section \<open>Inventory lookups\<close>

text \<open>
  C6 (confirmed, against the cluster lookup as the spec describes it). \<^verbatim>\<open>doThings\<close> has no
  test of the cluster name: once the machine is found, it hands the name, here the empty
  one, to \<^verbatim>\<open>ClusterComputeResourceOrDefault\<close> on the second finder. With a lookup that
  behaves as section 4.1 of the spec says: when exactly one cluster is in the scope of
  that finder, the lookup answers it and \<^verbatim>\<open>doThings\<close> goes on to ask for the EVC manager
  of that cluster; when two or more are, the lookup fails, \<^verbatim>\<open>doThings\<close> makes no further
  call and returns the lookup's error. (A run started from \<^verbatim>\<open>main\<close> never gets here with
  an empty name: lines 28 to 31 end it first. The claim is about the lookup at line 65.)
\<close>

theorem doThings_empty_cluster_name:
  assumes "Finder_ClusterComputeResourceOrDefault srv = ClusterComputeResourceOrDefault clusters"
    and "Call_Finder_VirtualMachine ctx fv vmName
           \<in> set (fst (doThings env srv ctx dc [] evcMode vmName))"
    and "Finder_VirtualMachine srv ctx fv vmName = Inr vm"
  shows "Call_Finder_ClusterComputeResourceOrDefault ctx (snd (NewFinder srv (finder_client fv))) []
           \<in> set (fst (doThings env srv ctx dc [] evcMode vmName)) \<and>
         (\<forall>n c. clusters (snd (NewFinder srv (finder_client fv))) = [(n, c)] \<longrightarrow>
            Finder_ClusterComputeResourceOrDefault srv ctx (snd (NewFinder srv (finder_client fv))) [] = Inr c \<and>
            Call_methods_EvcManager ctx (finder_client fv)
                \<lparr>EvcManager.This = ClusterComputeResource_Reference c\<rparr>
              \<in> set (fst (doThings env srv ctx dc [] evcMode vmName))) \<and>
         (2 \<le> length (clusters (snd (NewFinder srv (finder_client fv)))) \<longrightarrow>
            (\<exists>err. Finder_ClusterComputeResourceOrDefault srv ctx (snd (NewFinder srv (finder_client fv))) []
                      = Inl err \<and>
                   snd (snd (doThings env srv ctx dc [] evcMode vmName)) = Returned (Some err)) \<and>
            last (fst (doThings env srv ctx dc [] evcMode vmName))
              = Call_Finder_ClusterComputeResourceOrDefault ctx (snd (NewFinder srv (finder_client fv))) [])"
proof (intro conjI allI impI)
  let ?f = "snd (NewFinder srv (finder_client fv))"
  let ?d = "doThings env srv ctx dc [] evcMode vmName"
  show call: "Call_Finder_ClusterComputeResourceOrDefault ctx ?f [] \<in> set (fst ?d)"
    using assms(2,3) by (rule doThings_vm_then_cluster)
  have fc: "finder_client ?f = finder_client fv"
    by (simp add: NewFinder_simps)
  {
    fix n c
    assume "clusters ?f = [(n, c)]"
    then have "ClusterComputeResourceOrDefault clusters ctx ?f [] = Inr c"
      by (simp add: ClusterComputeResourceOrDefault_def)
    with assms(1) show ans: "Finder_ClusterComputeResourceOrDefault srv ctx ?f [] = Inr c"
      by simp
    from doThings_cluster_lookup_succeeds [OF call ans] fc
    show "Call_methods_EvcManager ctx (finder_client fv)
            \<lparr>EvcManager.This = ClusterComputeResource_Reference c\<rparr> \<in> set (fst ?d)"
      by simp
  }
  {
    assume "2 \<le> length (clusters ?f)"
    then have "ClusterComputeResourceOrDefault clusters ctx ?f [] = Inl ''Ambiguous''"
      by (auto simp add: ClusterComputeResourceOrDefault_def split: list.splits)
    with assms(1) have ans: "Finder_ClusterComputeResourceOrDefault srv ctx ?f [] = Inl ''Ambiguous''"
      by simp
    from doThings_cluster_lookup_fails [OF call ans] ans
    show "\<exists>err. Finder_ClusterComputeResourceOrDefault srv ctx ?f [] = Inl err \<and>
                snd (snd ?d) = Returned (Some err)"
      and "last (fst ?d) = Call_Finder_ClusterComputeResourceOrDefault ctx ?f []"
      by simp_all
  }
qed

theorem doThings_empty_cluster_name_witness:
  "Call_Finder_VirtualMachine Background
       \<lparr>finder_client = vim25_Client 0,
        finder_dc = Some (Datacenter (ManagedObjectReference ''Datacenter'' ''datacenter-2''))\<rparr> ''vm1''
     \<in> set (fst (doThings example_environ
                    (example_server_clusters [(''cluster1'', example_cluster ''domain-c7'')])
                    Background ''dc1'' [] ''intel-sandybridge'' ''vm1'')) \<and>
   Call_Finder_ClusterComputeResourceOrDefault Background
       \<lparr>finder_client = vim25_Client 0,
        finder_dc = Some (Datacenter (ManagedObjectReference ''Datacenter'' ''datacenter-2''))\<rparr> []
     \<in> set (fst (doThings example_environ
                    (example_server_clusters [(''cluster1'', example_cluster ''domain-c7'')])
                    Background ''dc1'' [] ''intel-sandybridge'' ''vm1'')) \<and>
   Call_methods_EvcManager Background (vim25_Client 0)
       \<lparr>EvcManager.This = ManagedObjectReference ''ClusterComputeResource'' ''domain-c7''\<rparr>
     \<in> set (fst (doThings example_environ
                    (example_server_clusters [(''cluster1'', example_cluster ''domain-c7'')])
                    Background ''dc1'' [] ''intel-sandybridge'' ''vm1'')) \<and>
   (\<exists>err. snd (snd (doThings example_environ
                    (example_server_clusters
                       [(''cluster1'', example_cluster ''domain-c7''),
                        (''cluster2'', example_cluster ''domain-c8'')])
                    Background ''dc1'' [] ''intel-sandybridge'' ''vm1'')) = Returned (Some err)) \<and>
   last (fst (doThings example_environ
                (example_server_clusters
                   [(''cluster1'', example_cluster ''domain-c7''),
                    (''cluster2'', example_cluster ''domain-c8'')])
                Background ''dc1'' [] ''intel-sandybridge'' ''vm1''))
     = Call_Finder_ClusterComputeResourceOrDefault Background
         \<lparr>finder_client = vim25_Client 0,
          finder_dc = Some (Datacenter (ManagedObjectReference ''Datacenter'' ''datacenter-2''))\<rparr> []"
proof -
  let ?one = "[(''cluster1'', example_cluster ''domain-c7'')]"
  let ?two = "[(''cluster1'', example_cluster ''domain-c7''), (''cluster2'', example_cluster ''domain-c8'')]"
  let ?fv = "\<lparr>finder_client = vim25_Client 0,
        finder_dc = Some (Datacenter (ManagedObjectReference ''Datacenter'' ''datacenter-2''))\<rparr>"
  have spec: "Finder_ClusterComputeResourceOrDefault (example_server_clusters cs)
                = ClusterComputeResourceOrDefault (\<lambda>f. cs)" for cs
    by (simp add: example_server_clusters_def)
  have vm: "Finder_VirtualMachine (example_server_clusters cs) Background ?fv ''vm1''
              = Inr (VirtualMachine (ManagedObjectReference ''VirtualMachine'' ''vm-10''))" for cs
    by (simp add: example_server_clusters_def example_server_def)
  have f: "snd (NewFinder (example_server_clusters cs) (finder_client ?fv)) = ?fv" for cs
    by (simp add: NewFinder_def example_server_clusters_def example_server_def)
  have h1: "Call_Finder_VirtualMachine Background ?fv ''vm1''
     \<in> set (fst (doThings example_environ (example_server_clusters ?one)
                    Background ''dc1'' [] ''intel-sandybridge'' ''vm1''))"
    by (simp add: doThings_def createClient_def Let_def NewFinder_def SetDatacenter_def
        example_server_clusters_def example_server_def ClusterComputeResourceOrDefault_def
        example_cluster_def example_resolveMasks)
  have h2: "Call_Finder_VirtualMachine Background ?fv ''vm1''
     \<in> set (fst (doThings example_environ (example_server_clusters ?two)
                    Background ''dc1'' [] ''intel-sandybridge'' ''vm1''))"
    by (simp add: doThings_def createClient_def Let_def NewFinder_def SetDatacenter_def
        example_server_clusters_def example_server_def ClusterComputeResourceOrDefault_def)
  from doThings_empty_cluster_name [OF spec [of ?one] h1 vm [of ?one]] f [of ?one]
  have a: "Call_Finder_ClusterComputeResourceOrDefault Background ?fv []
     \<in> set (fst (doThings example_environ (example_server_clusters ?one)
                    Background ''dc1'' [] ''intel-sandybridge'' ''vm1''))"
    "Call_methods_EvcManager Background (vim25_Client 0)
       \<lparr>EvcManager.This = ManagedObjectReference ''ClusterComputeResource'' ''domain-c7''\<rparr>
     \<in> set (fst (doThings example_environ (example_server_clusters ?one)
                    Background ''dc1'' [] ''intel-sandybridge'' ''vm1''))"
    by (simp_all add: example_cluster_def)
  from doThings_empty_cluster_name [OF spec [of ?two] h2 vm [of ?two]] f [of ?two]
  have b: "\<exists>err. snd (snd (doThings example_environ (example_server_clusters ?two)
                    Background ''dc1'' [] ''intel-sandybridge'' ''vm1'')) = Returned (Some err)"
    "last (fst (doThings example_environ (example_server_clusters ?two)
                Background ''dc1'' [] ''intel-sandybridge'' ''vm1''))
     = Call_Finder_ClusterComputeResourceOrDefault Background ?fv []"
    by auto
  from h1 a b show ?thesis by (intro conjI)
qed




section \<open>The context and the client\<close>

text \<open>
  C9 (corrected). The claim: the workflow accepts a cancellation signal, and in some
  execution the signal fires during the wait, which is then aborted with a cancellation
  error. In a run of the program no signal can fire: \<^verbatim>\<open>main\<close> calls \<^verbatim>\<open>doThings\<close> with
  \<^verbatim>\<open>context.Background()\<close>, which is never cancelled, and every call of the run, the wait
  included, gets that context. What holds: \<^verbatim>\<open>doThings\<close> hands the context it is given
  unchanged to every call it makes itself, the wait included; only the two
  default-datacenter lookups that \<^verbatim>\<open>find.NewFinder\<close> makes run with the background context
  instead. When \<^verbatim>\<open>doThings\<close> reaches the wait, the wait is its last call (nothing is rolled
  back) and it returns what the wait returns. Every call of a run of \<^verbatim>\<open>main\<close> carries the
  background context.
\<close>

theorem doThings_context_handed_on:
  "(\<forall>c \<in> set (fst (doThings env srv ctx dc cluster evcMode vmName)).
      call_context c = ctx \<or> (\<exists>cl. c = Call_Finder_DefaultDatacenter Background cl)) \<and>
   (\<forall>ctx' t.
      Call_Task_Wait ctx' t \<in> set (fst (doThings env srv ctx dc cluster evcMode vmName)) \<longrightarrow>
      ctx' = ctx \<and>
      last (fst (doThings env srv ctx dc cluster evcMode vmName)) = Call_Task_Wait ctx t \<and>
      snd (snd (doThings env srv ctx dc cluster evcMode vmName)) = Returned (Task_Wait srv ctx t)) \<and>
   (\<forall>c \<in> set (calls (main env' srv' fl)). call_context c = Background)"
proof (intro conjI ballI allI impI)
  fix c
  assume "c \<in> set (fst (doThings env srv ctx dc cluster evcMode vmName))"
  then show "call_context c = ctx \<or> (\<exists>cl. c = Call_Finder_DefaultDatacenter Background cl)"
    by (rule doThings_ctx)
next
  fix ctx' t
  assume "Call_Task_Wait ctx' t \<in> set (fst (doThings env srv ctx dc cluster evcMode vmName))"
  from doThings_wait_call [OF this]
  show "ctx' = ctx"
    and "last (fst (doThings env srv ctx dc cluster evcMode vmName)) = Call_Task_Wait ctx t"
    and "snd (snd (doThings env srv ctx dc cluster evcMode vmName)) = Returned (Task_Wait srv ctx t)"
    by simp_all
next
  fix c
  assume "c \<in> set (calls (main env' srv' fl))"
  then show "call_context c = Background" by (rule main_calls_background)
qed

theorem doThings_context_handed_on_witness:
  "can_cancel (WithCancel Background) \<and>
   Call_Task_Wait (WithCancel Background)
       (NewTask (vim25_Client 0) (ManagedObjectReference ''Task'' ''task-42''))
     \<in> set (fst (doThings example_environ (example_server (Some ''A general system error occurred''))
                    (WithCancel Background) ''dc1'' ''cluster1'' ''intel-sandybridge'' ''vm1'')) \<and>
   Call_Finder_DefaultDatacenter Background (vim25_Client 0)
     \<in> set (fst (doThings example_environ (example_server (Some ''A general system error occurred''))
                    (WithCancel Background) ''dc1'' ''cluster1'' ''intel-sandybridge'' ''vm1'')) \<and>
   last (fst (doThings example_environ (example_server (Some ''A general system error occurred''))
                (WithCancel Background) ''dc1'' ''cluster1'' ''intel-sandybridge'' ''vm1''))
     = Call_Task_Wait (WithCancel Background)
         (NewTask (vim25_Client 0) (ManagedObjectReference ''Task'' ''task-42'')) \<and>
   snd (snd (doThings example_environ (example_server (Some ''A general system error occurred''))
                (WithCancel Background) ''dc1'' ''cluster1'' ''intel-sandybridge'' ''vm1''))
     = Returned (Some ''A general system error occurred'') \<and>
   Call_Task_Wait Background
       (NewTask (vim25_Client 0) (ManagedObjectReference ''Task'' ''task-42''))
     \<in> set (calls (main example_environ (example_server None) example_flags)) \<and>
   call_context (Call_Task_Wait Background
       (NewTask (vim25_Client 0) (ManagedObjectReference ''Task'' ''task-42''))) = Background"
proof -
  let ?t = "NewTask (vim25_Client 0) (ManagedObjectReference ''Task'' ''task-42'')"
  let ?srv = "example_server (Some ''A general system error occurred'')"
  let ?d = "doThings example_environ ?srv (WithCancel Background)
              ''dc1'' ''cluster1'' ''intel-sandybridge'' ''vm1''"
  have h0: "can_cancel (WithCancel Background)" by simp
  have h1: "Call_Task_Wait (WithCancel Background) ?t \<in> set (fst ?d)"
    by (simp add: example_doThings example_calls_def example_calls_lookup_def example_calls_apply_def)
  have h2: "Call_Task_Wait Background ?t
     \<in> set (calls (main example_environ (example_server None) example_flags))"
    by (simp add: example_main example_calls_def example_calls_lookup_def example_calls_apply_def)
  have h3: "Call_Finder_DefaultDatacenter Background (vim25_Client 0) \<in> set (fst ?d)"
    by (simp add: example_doThings example_calls_def example_calls_lookup_def example_calls_apply_def)
  from doThings_context_handed_on
         [of example_environ ?srv "WithCancel Background" "''dc1''" "''cluster1''"
             "''intel-sandybridge''" "''vm1''" example_environ "example_server None" example_flags]
  have a: "last (fst ?d) = Call_Task_Wait (WithCancel Background) ?t"
    and b: "snd (snd ?d) = Returned (Task_Wait ?srv (WithCancel Background) ?t)"
    and c: "call_context (Call_Task_Wait Background ?t) = Background"
    using h1 h2 by blast+
  from b have b': "snd (snd ?d) = Returned (Some ''A general system error occurred'')"
    by (simp add: example_server_simps)
  from h0 h1 h3 a b' h2 c show ?thesis by (intro conjI)
qed

theorem main_background_context_counterexample:
  "Call_Task_Wait Background
       (NewTask (vim25_Client 0) (ManagedObjectReference ''Task'' ''task-42''))
     \<in> set (calls (main example_environ (example_server None) example_flags)) \<and>
   \<not> can_cancel Background \<and>
   \<not> (\<exists>env srv fl ctx t.
         Call_Task_Wait ctx t \<in> set (calls (main env srv fl)) \<and> can_cancel ctx)"
proof -
  have "\<not> can_cancel ctx" if "Call_Task_Wait ctx t \<in> set (calls (main env srv fl))"
    for env srv fl ctx t
    using main_calls_background [OF that] by simp
  then have "\<not> (\<exists>env srv fl ctx t.
         Call_Task_Wait ctx t \<in> set (calls (main env srv fl)) \<and> can_cancel ctx)"
    by blast
  then show ?thesis
    by (simp add: example_main example_calls_def example_calls_lookup_def example_calls_apply_def)
qed

text \<open>
  C10 (confirmed). \<^verbatim>\<open>createClient\<close> always begins by creating the vim25 client over a SOAP
  client built with the insecure flag \<^verbatim>\<open>true\<close>, whatever the environment holds, and no
  run of the program creates a vim25 client over a SOAP client with the flag \<^verbatim>\<open>false\<close>.
  The flag is the second argument of \<^verbatim>\<open>soap.NewClient\<close>, the constant \<^verbatim>\<open>true\<close> at line 126.
\<close>

theorem createClient_insecure:
  "(\<exists>rest. fst (createClient env srv ctx) =
       Call_vim25_NewClient ctx \<lparr>u = (createClient_url env)\<lparr>User := None\<rparr>, insecure = True\<rparr> # rest) \<and>
   (\<forall>ctx' sc. Call_vim25_NewClient ctx' sc \<in> set (fst (createClient env srv ctx)) \<longrightarrow> insecure sc) \<and>
   (\<forall>ctx' sc. Call_vim25_NewClient ctx' sc \<in> set (calls (main env srv fl)) \<longrightarrow> insecure sc)"
proof (intro conjI allI impI)
  show "\<exists>rest. fst (createClient env srv ctx) =
       Call_vim25_NewClient ctx \<lparr>u = (createClient_url env)\<lparr>User := None\<rparr>, insecure = True\<rparr> # rest"
    by (simp add: createClient_calls soap_NewClient_def)
next
  fix ctx' sc
  assume "Call_vim25_NewClient ctx' sc \<in> set (fst (createClient env srv ctx))"
  from createClient_calls_only [OF this]
  show "insecure sc" by auto
next
  fix ctx' sc
  assume c: "Call_vim25_NewClient ctx' sc \<in> set (calls (main env srv fl))"
  then have "calls (main env srv fl) \<noteq> []" by auto
  from main_run(1) [OF this] c
  have "Call_vim25_NewClient ctx' sc
          \<in> set (fst (doThings env srv Background (flag_String (flag_dc fl) [])
                        (flag_String (flag_cluster fl) [])
                        (flag_String (flag_evcmode fl) ''intel-sandybridge'')
                        (flag_String (flag_vm fl) [])))"
    by simp
  then show "insecure sc" by (rule doThings_newclient_call)
qed

theorem createClient_insecure_witness:
  "Call_vim25_NewClient Background
       \<lparr>u = (createClient_url example_environ)\<lparr>User := None\<rparr>, insecure = True\<rparr>
     \<in> set (calls (main example_environ (example_server None) example_flags)) \<and>
   insecure \<lparr>u = (createClient_url example_environ)\<lparr>User := None\<rparr>, insecure = True\<rparr> \<and>
   Host (createClient_url example_environ) = ''vcenter.example.com''"
proof -
  have h: "Call_vim25_NewClient Background
       \<lparr>u = (createClient_url example_environ)\<lparr>User := None\<rparr>, insecure = True\<rparr>
     \<in> set (calls (main example_environ (example_server None) example_flags))"
    by (simp add: example_main example_calls_def example_calls_lookup_def soap_NewClient_def)
  from createClient_insecure [of example_environ "example_server None" Background example_flags] h
  have "insecure \<lparr>u = (createClient_url example_environ)\<lparr>User := None\<rparr>, insecure = True\<rparr>" by blast
  with h show ?thesis by (simp add: createClient_url_def example_Getenv)
qed

end
